theory Spec2Isabelle
  imports Complex_Main
begin

section \<open>Python values and the operations the handlers apply to them\<close>

text \<open>
  Both Lambda handlers work on what \<open>json.loads\<close> returns: dictionaries, lists, strings,
  numbers, booleans and \<open>None\<close>, with Python's dynamic typing. A \<open>str\<close> is a \<open>string\<close>
  here (the characters of its UTF-8 encoding), \<open>bytes\<close> are a list of numbers, and a
  \<open>dict\<close> is an association list read by its first entry for a key. A \<open>float\<close> is a
  rational or one of the three values that are no number; the handlers only compare
  floats with \<open>1\<close> and \<open>2\<close> and test them for truth.
\<close>

type_synonym bytes = "nat list"

datatype pyfloat = Finite rat | NaN | Infinity bool

datatype pyval =
    PNone
  | PBool bool
  | PInt int
  | PFloat pyfloat
  | PStr string
  | PList "pyval list"
  | PDict "(string \<times> pyval) list"

text \<open>
  Every exception of the source is a value. \<open>ClientError\<close> carries the text that
  \<open>str(exc)\<close> gives; \<open>OtherError\<close> stands for whatever else an external library
  raises (a botocore or nacl exception that is not the one the source catches).
\<close>

datatype py_error =
    AttributeError
  | TypeError
  | ValueError
  | KeyError
  | IndexError
  | BinasciiError
  | UnicodeDecodeError
  | JSONDecodeError
  | ClientError string
  | OtherError string

text \<open>Truth of a value, as \<open>not x\<close>, \<open>x or y\<close> and \<open>all([...])\<close> test it.\<close>

fun truthy :: "pyval \<Rightarrow> bool" where
  "truthy PNone = False"
| "truthy (PBool b) = b"
| "truthy (PInt i) = (i \<noteq> 0)"
| "truthy (PFloat f) = (f \<noteq> Finite 0)"
| "truthy (PStr s) = (s \<noteq> [])"
| "truthy (PList xs) = (xs \<noteq> [])"
| "truthy (PDict kvs) = (kvs \<noteq> [])"

definition py_or :: "pyval \<Rightarrow> pyval \<Rightarrow> pyval" where
  "py_or x y = (if truthy x then x else y)"

text \<open>
  \<open>x == n\<close> for an integer literal \<open>n\<close>: Python compares numbers by value across
  \<open>int\<close>, \<open>bool\<close> and \<open>float\<close>, so \<open>True == 1\<close> and \<open>1.0 == 1\<close> hold.
\<close>

fun py_eq_int :: "pyval \<Rightarrow> int \<Rightarrow> bool" where
  "py_eq_int (PInt i) n = (i = n)"
| "py_eq_int (PBool b) n = ((if b then 1 else 0) = n)"
| "py_eq_int (PFloat (Finite q)) n = (q = of_int n)"
| "py_eq_int _ n = False"

text \<open>
  \<open>x.get(key, default)\<close>: only a dictionary has \<open>get\<close>; on anything else the
  attribute lookup raises \<open>AttributeError\<close>. \<open>x.get(key)\<close> is \<open>py_get x key PNone\<close>.
\<close>

fun py_get :: "pyval \<Rightarrow> string \<Rightarrow> pyval \<Rightarrow> py_error + pyval" where
  "py_get (PDict kvs) k d = Inr (case map_of kvs k of None \<Rightarrow> d | Some v \<Rightarrow> v)"
| "py_get _ k d = Inl AttributeError"

text \<open>
  \<open>for x in v\<close>: the elements of a list, the characters of a string, the keys of a
  dictionary; a number, a boolean or \<open>None\<close> is not iterable.
\<close>

fun py_iter :: "pyval \<Rightarrow> py_error + pyval list" where
  "py_iter (PList xs) = Inr xs"
| "py_iter (PStr s) = Inr (map (\<lambda>c. PStr [c]) s)"
| "py_iter (PDict kvs) = Inr (map (\<lambda>kv. PStr (fst kv)) kvs)"
| "py_iter _ = Inl TypeError"

text \<open>
  \<open>"|" in v\<close>: a substring test on a string (for the one-character needle, whether
  the character occurs), membership in a list, key membership in a dictionary, and
  \<open>TypeError\<close> on a value that is not a container.
\<close>

fun py_in_char :: "char \<Rightarrow> pyval \<Rightarrow> py_error + bool" where
  "py_in_char c (PStr s) = Inr (c \<in> set s)"
| "py_in_char c (PList xs) = Inr (PStr [c] \<in> set xs)"
| "py_in_char c (PDict kvs) = Inr ([c] \<in> set (map fst kvs))"
| "py_in_char c _ = Inl TypeError"

text \<open>
  \<open>s.split(sep, 1)\<close> for a one-character separator: the text before the first
  separator and the text after it, or the string alone when it has no separator.
\<close>

definition split1 :: "char \<Rightarrow> string \<Rightarrow> string list" where
  "split1 c s =
     (if c \<in> set s
      then [takeWhile (\<lambda>x. x \<noteq> c) s, tl (dropWhile (\<lambda>x. x \<noteq> c) s)]
      else [s])"

text \<open>
  \<open>region, server_id = v.split("|", 1)\<close>: only a string has \<open>split\<close>, and the
  unpacking needs exactly two parts.
\<close>

fun py_split_pair :: "pyval \<Rightarrow> py_error + (string \<times> string)" where
  "py_split_pair (PStr s) =
     (case split1 (CHR ''|'') s of
        [a, b] \<Rightarrow> Inr (a, b)
      | _ \<Rightarrow> Inl ValueError)"
| "py_split_pair _ = Inl AttributeError"

text \<open>\<open>s.lower()\<close> on the ASCII letters, which is all a header name holds.\<close>

definition lower_char :: "char \<Rightarrow> char" where
  "lower_char c =
     (case map_of (zip ''ABCDEFGHIJKLMNOPQRSTUVWXYZ'' ''abcdefghijklmnopqrstuvwxyz'') c of
        None \<Rightarrow> c
      | Some l \<Rightarrow> l)"

definition lower :: "string \<Rightarrow> string" where
  "lower s = map lower_char s"

definition encode_utf8 :: "string \<Rightarrow> bytes" where
  "encode_utf8 s = map of_char s"

subsection \<open>\<open>bytes.fromhex\<close>\<close>

text \<open>
  Two hexadecimal digits per byte; ASCII whitespace between bytes is skipped; anything
  else, or a digit left alone at the end, raises \<open>ValueError\<close>.
\<close>

definition is_space :: "char \<Rightarrow> bool" where
  "is_space c = (c \<in> set [CHR '' '', CHR 0x09, CHR 0x0A, CHR 0x0B, CHR 0x0C, CHR 0x0D])"

definition hex_digit :: "char \<Rightarrow> nat option" where
  "hex_digit c =
     map_of (zip ''0123456789abcdef'' [0, 1, 2, 3, 4, 5, 6, 7, 8, 9, 10, 11, 12, 13, 14, 15]
             @ zip ''ABCDEF'' [10, 11, 12, 13, 14, 15]) c"

fun fromhex :: "string \<Rightarrow> py_error + bytes" where
  "fromhex [] = Inr []"
| "fromhex [c] =
     (if is_space c then Inr []
      else Inl ValueError)"
| "fromhex (c # d # ds) =
     (if is_space c then fromhex (d # ds)
      else (case hex_digit c of
              None \<Rightarrow> Inl ValueError
            | Some hi \<Rightarrow>
                (case hex_digit d of
                   None \<Rightarrow> Inl ValueError
                 | Some lo \<Rightarrow>
                     (case fromhex ds of
                        Inl e \<Rightarrow> Inl e
                      | Inr bs \<Rightarrow> Inr ((16 * hi + lo) # bs)))))"

section \<open>The dispatcher: \<open>handle-interaction/handler.py\<close>\<close>

text \<open>
  The event is what the HTTP front end hands to the function: the headers (a
  dictionary of strings, or none), the body (a string, or none) and the flag that
  says the body is base64. The response's body is the dictionary that the source
  serialises with \<open>json.dumps\<close>.
\<close>

record event =
  headers :: "(string \<times> string) list option"
  body :: "string option"
  isBase64Encoded :: bool

record response =
  statusCode :: int
  resp_headers :: "(string \<times> string) list"
  resp_body :: pyval

text \<open>
  The libraries and services the dispatcher calls are parameters: the configured
  public key, \<open>base64.b64decode\<close> (\<open>None\<close> when it raises), the constructor
  \<open>VerifyKey\<close> (\<open>Some e\<close> when it raises \<open>e\<close>), \<open>verify_key.verify\<close> on a key, a
  signed message and a signature, \<open>bytes.decode("utf-8")\<close> (\<open>None\<close> when it raises),
  \<open>json.loads\<close> (\<open>None\<close> when it raises \<open>JSONDecodeError\<close>) and the publish call of
  the notification service (\<open>Some e\<close> when it raises \<open>e\<close>).
\<close>

datatype verify_result = Verified | BadSignatureError | VerifyRaises py_error

record intake =
  DISCORD_APP_PUBLIC_KEY :: string
  b64decode :: "string \<Rightarrow> bytes option"
  VerifyKey :: "bytes \<Rightarrow> py_error option"
  verify :: "bytes \<Rightarrow> bytes \<Rightarrow> bytes \<Rightarrow> verify_result"
  decode_utf8 :: "bytes \<Rightarrow> string option"
  json_loads :: "string \<Rightarrow> pyval option"
  sns_publish :: "pyval \<Rightarrow> py_error option"

text \<open>
  What a run of the handler did besides returning: the calls of \<open>json.loads\<close> and
  the publish calls, in order. A publish call is recorded with the dictionary whose
  \<open>json.dumps\<close> is the message.
\<close>

datatype intake_call = JsonLoads string | SnsPublish pyval

definition PING_INTERACTION :: int where
  "PING_INTERACTION = 1"

definition APPLICATION_COMMAND_INTERACTION :: int where
  "APPLICATION_COMMAND_INTERACTION = 2"

definition DEFERRED_CHANNEL_MESSAGE_WITH_SOURCE :: int where
  "DEFERRED_CHANNEL_MESSAGE_WITH_SOURCE = 5"

definition json_response :: "int \<Rightarrow> pyval \<Rightarrow> response" where
  "json_response status_code b =
     \<lparr>statusCode = status_code,
      resp_headers = [(''content-type'', ''application/json'')],
      resp_body = b\<rparr>"

fun get_header_loop :: "(string \<times> string) list \<Rightarrow> string \<Rightarrow> string option" where
  "get_header_loop [] lowercase = None"
| "get_header_loop ((k, v) # rest) lowercase =
     (if k \<noteq> [] \<and> lower k = lowercase then Some v
      else get_header_loop rest lowercase)"

definition get_header :: "(string \<times> string) list option \<Rightarrow> string \<Rightarrow> string option" where
  "get_header hs name =
     (case hs of
        None \<Rightarrow> None
      | Some kvs \<Rightarrow> if kvs = [] then None else get_header_loop kvs (lower name))"

text \<open>
  \<open>_get_body_bytes\<close>: the body is a \<open>str\<close> in this event, so the branch for a body
  that is already \<open>bytes\<close> is never taken.
\<close>

definition get_body_bytes :: "intake \<Rightarrow> event \<Rightarrow> py_error + bytes" where
  "get_body_bytes env ev =
     (let b = (case body ev of None \<Rightarrow> [] | Some s \<Rightarrow> s) in
      if isBase64Encoded ev
      then (case b64decode env b of None \<Rightarrow> Inl BinasciiError | Some bs \<Rightarrow> Inr bs)
      else Inr (encode_utf8 b))"

text \<open>
  \<open>_verify_request\<close>. The arguments of \<open>verify\<close> are evaluated before the call, so
  \<open>bytes.fromhex(signature)\<close> raises its \<open>ValueError\<close> inside the \<open>try\<close>, whose only
  handler is for \<open>BadSignatureError\<close>.
\<close>

definition verify_request :: "intake \<Rightarrow> event \<Rightarrow> bytes \<Rightarrow> py_error + bool" where
  "verify_request env ev body_bytes =
     (case get_header (headers ev) ''x-signature-ed25519'' of
        None \<Rightarrow> Inr False
      | Some signature \<Rightarrow>
     (case get_header (headers ev) ''x-signature-timestamp'' of
        None \<Rightarrow> Inr False
      | Some timestamp \<Rightarrow>
          if signature = [] then Inr False
          else if timestamp = [] then Inr False
          else
     (case fromhex (DISCORD_APP_PUBLIC_KEY env) of
        Inl e \<Rightarrow> Inl e
      | Inr key_bytes \<Rightarrow>
     (case VerifyKey env key_bytes of
        Some e \<Rightarrow> Inl e
      | None \<Rightarrow>
     (case fromhex signature of
        Inl e \<Rightarrow> Inl e
      | Inr sig_bytes \<Rightarrow>
     (case verify env key_bytes (encode_utf8 timestamp @ body_bytes) sig_bytes of
        Verified \<Rightarrow> Inr True
      | BadSignatureError \<Rightarrow> Inr False
      | VerifyRaises e \<Rightarrow> Inl e))))))"

fun find_server_loop :: "pyval list \<Rightarrow> py_error + pyval" where
  "find_server_loop [] = Inr PNone"
| "find_server_loop (opt # rest) =
     (case py_get opt ''name'' PNone of
        Inl e \<Rightarrow> Inl e
      | Inr n \<Rightarrow>
          if n = PStr ''server'' then py_get opt ''value'' PNone
          else find_server_loop rest)"

definition find_server_option_value :: "pyval \<Rightarrow> py_error + pyval" where
  "find_server_option_value interaction =
     (case py_get interaction ''data'' (PDict []) of
        Inl e \<Rightarrow> Inl e
      | Inr data \<Rightarrow>
     (case py_get data ''options'' PNone of
        Inl e \<Rightarrow> Inl e
      | Inr opts \<Rightarrow>
     (case py_iter (py_or opts (PList [])) of
        Inl e \<Rightarrow> Inl e
      | Inr options \<Rightarrow> find_server_loop options)))"

definition sns_message :: "pyval \<Rightarrow> pyval \<Rightarrow> pyval \<Rightarrow> string \<Rightarrow> string \<Rightarrow> pyval" where
  "sns_message command interaction_id interaction_token region server_id =
     PDict [(''interactionId'', interaction_id),
            (''interactionToken'', interaction_token),
            (''command'', command),
            (''serverId'', PStr server_id),
            (''region'', PStr region),
            (''instanceRegion'', PStr region)]"

definition publish_sns_message ::
  "intake \<Rightarrow> pyval \<Rightarrow> pyval \<Rightarrow> pyval \<Rightarrow> string \<Rightarrow> string \<Rightarrow> py_error option \<times> intake_call list" where
  "publish_sns_message env command interaction_id interaction_token region server_id =
     (let m = sns_message command interaction_id interaction_token region server_id
      in (sns_publish env m, [SnsPublish m]))"

text \<open>
  \<open>handler\<close>, from the interaction that \<open>json.loads\<close> returned to the response
  (the source's lines after the \<open>try\<close> around \<open>json.loads\<close>).
\<close>

definition handle_interaction :: "intake \<Rightarrow> pyval \<Rightarrow> (py_error + response) \<times> intake_call list" where
  "handle_interaction env interaction =
     (case py_get interaction ''type'' PNone of
        Inl e \<Rightarrow> (Inl e, [])
      | Inr interaction_type \<Rightarrow>
          if py_eq_int interaction_type PING_INTERACTION
          then (Inr (json_response 200 (PDict [(''type'', PInt PING_INTERACTION)])), [])
          else if py_eq_int interaction_type APPLICATION_COMMAND_INTERACTION
          then
     (case find_server_option_value interaction of
        Inl e \<Rightarrow> (Inl e, [])
      | Inr server_value \<Rightarrow>
     (case (if truthy server_value then py_in_char (CHR ''|'') server_value else Inr False) of
        Inl e \<Rightarrow> (Inl e, [])
      | Inr False \<Rightarrow>
          (Inr (json_response 400 (PDict [(''error'', PStr ''Missing server option'')])), [])
      | Inr True \<Rightarrow>
     (case py_get interaction ''data'' (PDict []) of
        Inl e \<Rightarrow> (Inl e, [])
      | Inr data \<Rightarrow>
     (case py_get data ''name'' PNone of
        Inl e \<Rightarrow> (Inl e, [])
      | Inr command_name \<Rightarrow>
     (case py_get interaction ''id'' PNone of
        Inl e \<Rightarrow> (Inl e, [])
      | Inr interaction_id \<Rightarrow>
     (case py_get interaction ''token'' PNone of
        Inl e \<Rightarrow> (Inl e, [])
      | Inr interaction_token \<Rightarrow>
          if truthy command_name \<and> truthy interaction_id \<and> truthy interaction_token
          then
     (case py_split_pair server_value of
        Inl e \<Rightarrow> (Inl e, [])
      | Inr (region, server_id) \<Rightarrow>
     (case publish_sns_message env command_name interaction_id interaction_token
             region server_id of
        (Some e, calls) \<Rightarrow> (Inl e, calls)
      | (None, calls) \<Rightarrow>
          (Inr (json_response 200
                  (PDict [(''type'', PInt DEFERRED_CHANNEL_MESSAGE_WITH_SOURCE)])),
           calls)))
          else
            (Inr (json_response 400 (PDict [(''error'', PStr ''Invalid interaction payload'')])),
             [])))))))
          else
            (Inr (json_response 400 (PDict [(''error'', PStr ''Unsupported interaction type'')])),
             []))"

text \<open>\<open>handler\<close> of the dispatcher: the result, and the calls it made.\<close>

definition interaction_handler :: "intake \<Rightarrow> event \<Rightarrow> (py_error + response) \<times> intake_call list" where
  "interaction_handler env ev =
     (case get_body_bytes env ev of
        Inl e \<Rightarrow> (Inl e, [])
      | Inr body_bytes \<Rightarrow>
     (case verify_request env ev body_bytes of
        Inl e \<Rightarrow> (Inl e, [])
      | Inr False \<Rightarrow>
          (Inr (json_response 401 (PDict [(''error'', PStr ''Invalid signature'')])), [])
      | Inr True \<Rightarrow>
     (case decode_utf8 env body_bytes of
        None \<Rightarrow> (Inl UnicodeDecodeError, [])
      | Some decoded \<Rightarrow>
     (case json_loads env decoded of
        None \<Rightarrow>
          (Inr (json_response 400 (PDict [(''error'', PStr ''Invalid JSON body'')])),
           [JsonLoads decoded])
      | Some interaction \<Rightarrow>
          (fst (handle_interaction env interaction),
           JsonLoads decoded # snd (handle_interaction env interaction))))))"

text \<open>The messages among the calls of a run.\<close>

fun published :: "intake_call list \<Rightarrow> pyval list" where
  "published [] = []"
| "published (JsonLoads s # cs) = published cs"
| "published (SnsPublish m # cs) = m # published cs"

text \<open>
  The interaction of a request that passes verification and parses: what the steps
  after \<open>json.loads\<close> work on.
\<close>

definition parsed_interaction :: "intake \<Rightarrow> event \<Rightarrow> pyval option" where
  "parsed_interaction env ev =
     (case get_body_bytes env ev of
        Inl e \<Rightarrow> None
      | Inr body_bytes \<Rightarrow>
          if verify_request env ev body_bytes = Inr True
          then (case decode_utf8 env body_bytes of
                  None \<Rightarrow> None
                | Some decoded \<Rightarrow> json_loads env decoded)
          else None)"

text \<open>
  The extraction as the specification words it: the value of the first option named
  \<open>server\<close> in a list of options, \<open>None\<close> when no option has that name or the option
  has no value. A well-formed option is a dictionary.
\<close>

fun is_dict :: "pyval \<Rightarrow> bool" where
  "is_dict (PDict kvs) = True"
| "is_dict v = False"

definition named_server :: "pyval \<Rightarrow> bool" where
  "named_server opt = (py_get opt ''name'' PNone = Inr (PStr ''server''))"

definition server_option_value :: "pyval list \<Rightarrow> pyval" where
  "server_option_value os =
     (case find named_server os of
        None \<Rightarrow> PNone
      | Some opt \<Rightarrow> (case py_get opt ''value'' PNone of Inl e \<Rightarrow> PNone | Inr v \<Rightarrow> v))"

section \<open>The executor: \<open>manage-instance/handler.py\<close>\<close>

text \<open>
  An instance is the dictionary that the control plane's client returns for it, with
  the fields the handler reads; a field that is absent is \<open>None\<close>. \<open>State\<close> is
  \<open>None\<close> when the instance has no \<open>State\<close>, \<open>Some None\<close> when the state has no
  \<open>Name\<close>.
\<close>

record tag =
  Key :: "string option"
  Value :: "string option"

record ec2_instance =
  InstanceId :: "string option"
  PublicDnsName :: "string option"
  PublicIpAddress :: "string option"
  Tags :: "tag list option"
  State :: "string option option"

text \<open>
  The services the executor calls are parameters. \<open>describe_instances region
  server_id\<close> is the client of the region asked for the instances whose server-id tag
  is \<open>server_id\<close>: it raises, or returns the reservations, each the list of its
  instances. \<open>start_instances\<close>, \<open>stop_instances\<close> and \<open>reboot_instances\<close> take the
  region and the instance id and return \<open>Some e\<close> when they raise \<open>e\<close>.
  \<open>loads\<close> is \<open>json.loads\<close> (\<open>None\<close> when it raises \<open>JSONDecodeError\<close>), \<open>urlopen\<close>
  the PATCH request for a token and a content, and \<open>repr\<close> is \<open>str()\<close> of a value that
  is neither a string nor \<open>None\<close>.
\<close>

datatype urlopen_result = Responded | HTTPError | URLError | UrlopenRaises py_error

record executor =
  describe_instances :: "pyval \<Rightarrow> pyval \<Rightarrow> py_error + ec2_instance list list"
  start_instances :: "pyval \<Rightarrow> string \<Rightarrow> py_error option"
  stop_instances :: "pyval \<Rightarrow> string \<Rightarrow> py_error option"
  reboot_instances :: "pyval \<Rightarrow> string \<Rightarrow> py_error option"
  loads :: "string \<Rightarrow> pyval option"
  urlopen :: "pyval \<Rightarrow> string \<Rightarrow> urlopen_result"
  repr :: "pyval \<Rightarrow> string"

text \<open>The calls a run of the executor made, in order, each with its arguments.\<close>

datatype action =
    DescribeInstances pyval pyval
  | StartInstances pyval string
  | StopInstances pyval string
  | RebootInstances pyval string
  | PatchInteraction pyval string

text \<open>\<open>f"{v}"\<close> for a value and for an optional string.\<close>

fun py_str :: "(pyval \<Rightarrow> string) \<Rightarrow> pyval \<Rightarrow> string" where
  "py_str r (PStr s) = s"
| "py_str r PNone = ''None''"
| "py_str r v = r v"

fun fmt :: "string option \<Rightarrow> string" where
  "fmt None = ''None''"
| "fmt (Some s) = s"

definition newline :: string where
  "newline = [CHR 0x0A]"

definition backtick :: string where
  "backtick = [CHR 0x60]"

fun join :: "string \<Rightarrow> string list \<Rightarrow> string" where
  "join sep [] = []"
| "join sep [x] = x"
| "join sep (x # y # ys) = x @ sep @ join sep (y # ys)"

text \<open>\<open>_find_instance\<close>: the first instance of the first reservation that has one.\<close>

fun first_instance :: "ec2_instance list list \<Rightarrow> ec2_instance option" where
  "first_instance [] = None"
| "first_instance ([] # reservations) = first_instance reservations"
| "first_instance ((i # rest) # reservations) = Some i"

definition find_instance ::
  "executor \<Rightarrow> pyval \<Rightarrow> pyval \<Rightarrow> (py_error + ec2_instance option) \<times> action list" where
  "find_instance env region server_id =
     (case describe_instances env region server_id of
        Inl e \<Rightarrow> (Inl e, [DescribeInstances region server_id])
      | Inr reservations \<Rightarrow>
          (Inr (first_instance reservations), [DescribeInstances region server_id]))"

fun get_tag_loop :: "tag list \<Rightarrow> string \<Rightarrow> string option" where
  "get_tag_loop [] tag_key = None"
| "get_tag_loop (t # rest) tag_key =
     (if Key t = Some tag_key then Value t else get_tag_loop rest tag_key)"

definition get_tag :: "tag list option \<Rightarrow> string \<Rightarrow> string option" where
  "get_tag tags tag_key =
     (case tags of
        None \<Rightarrow> None
      | Some ts \<Rightarrow> if ts = [] then None else get_tag_loop ts tag_key)"

text \<open>A string that is present and not empty: \<open>if public_ip:\<close>.\<close>

fun present :: "string option \<Rightarrow> bool" where
  "present None = False"
| "present (Some s) = (s \<noteq> [])"

definition format_address_message :: "ec2_instance \<Rightarrow> string" where
  "format_address_message inst =
     (let public_dns = PublicDnsName inst;
          public_ip = PublicIpAddress inst;
          tags = Tags inst;
          hostname = get_tag tags ''GameServerEC2Discord:Hostname'';
          main_port = get_tag tags ''GameServerEC2Discord:MainPort'';
          lines1 = [''Addresses:''];
          lines2 = (if present public_ip
                    then lines1 @ [''- **'' @ backtick @ fmt public_ip @ '':'' @ fmt main_port
                                   @ backtick @ ''**'']
                    else lines1);
          lines3 = (if present public_dns
                    then lines2 @ [''- '' @ backtick @ fmt public_dns @ '':'' @ fmt main_port
                                   @ backtick]
                    else lines2);
          lines4 = (if present hostname
                    then lines3 @ [''- '' @ backtick @ fmt hostname @ '':'' @ fmt main_port
                                   @ backtick]
                    else lines3)
      in join newline lines4)"

text \<open>
  The handler of the \<open>try\<close> in \<open>_send_ec2_command\<close>: a \<open>ClientError\<close> becomes a
  message, any other exception goes on.
\<close>

fun except_ClientError :: "py_error \<Rightarrow> py_error + string" where
  "except_ClientError (ClientError exc) =
     Inr (''Error executing command:'' @ newline @ backtick @ backtick @ backtick @ newline
          @ exc @ newline @ backtick @ backtick @ backtick)"
| "except_ClientError e = Inl e"

definition not_found_message :: "executor \<Rightarrow> pyval \<Rightarrow> pyval \<Rightarrow> string" where
  "not_found_message env server_id region =
     ''Instance with server ID '' @ py_str (repr env) server_id
     @ '' not found on region '' @ py_str (repr env) region"

definition send_ec2_command ::
  "executor \<Rightarrow> pyval \<Rightarrow> pyval \<Rightarrow> pyval \<Rightarrow> (py_error + string) \<times> action list" where
  "send_ec2_command env server_id region command =
     (case find_instance env region server_id of
        (Inl e, calls) \<Rightarrow> (Inl e, calls)
      | (Inr None, calls) \<Rightarrow> (Inr (not_found_message env server_id region), calls)
      | (Inr (Some inst), calls) \<Rightarrow>
          if present (InstanceId inst)
          then
            (let instance_id = fmt (InstanceId inst) in
             if command = PStr ''start''
             then (case start_instances env region instance_id of
                     None \<Rightarrow> (Inr ''Starting...'', calls @ [StartInstances region instance_id])
                   | Some e \<Rightarrow>
                       (except_ClientError e, calls @ [StartInstances region instance_id]))
             else if command = PStr ''stop''
             then (case stop_instances env region instance_id of
                     None \<Rightarrow> (Inr ''Stopping...'', calls @ [StopInstances region instance_id])
                   | Some e \<Rightarrow>
                       (except_ClientError e, calls @ [StopInstances region instance_id]))
             else if command = PStr ''restart''
             then (case reboot_instances env region instance_id of
                     None \<Rightarrow> (Inr ''Rebooting...'', calls @ [RebootInstances region instance_id])
                   | Some e \<Rightarrow>
                       (except_ClientError e, calls @ [RebootInstances region instance_id]))
             else if command = PStr ''status''
             then (Inr (''State: '' @ (case State inst of
                                         None \<Rightarrow> ''unknown''
                                       | Some None \<Rightarrow> ''unknown''
                                       | Some (Some n) \<Rightarrow> n)), calls)
             else if command = PStr ''ip''
             then (Inr (format_address_message inst), calls)
             else (Inr ''Unknown command'', calls))
          else (Inr (not_found_message env server_id region), calls))"

text \<open>\<open>x[0]\<close> and \<open>json.loads(x)\<close> on a value of any type.\<close>

fun py_first :: "pyval \<Rightarrow> py_error + pyval" where
  "py_first (PList (x # xs)) = Inr x"
| "py_first (PList []) = Inl IndexError"
| "py_first (PStr (c # cs)) = Inr (PStr [c])"
| "py_first (PStr []) = Inl IndexError"
| "py_first (PDict kvs) = Inl KeyError"
| "py_first v = Inl TypeError"

fun py_loads :: "executor \<Rightarrow> pyval \<Rightarrow> py_error + pyval" where
  "py_loads env (PStr s) = (case loads env s of None \<Rightarrow> Inl JSONDecodeError | Some v \<Rightarrow> Inr v)"
| "py_loads env v = Inl TypeError"

definition parse_sns_message :: "executor \<Rightarrow> pyval \<Rightarrow> py_error + pyval" where
  "parse_sns_message env ev =
     (case py_get ev ''Records'' PNone of
        Inl e \<Rightarrow> Inl e
      | Inr records \<Rightarrow>
     (case py_first (py_or records (PList [PDict []])) of
        Inl e \<Rightarrow> Inl e
      | Inr rec \<Rightarrow>
     (case py_get rec ''Sns'' (PDict []) of
        Inl e \<Rightarrow> Inl e
      | Inr sns \<Rightarrow>
     (case py_get sns ''Message'' (PStr ''{}'') of
        Inl e \<Rightarrow> Inl e
      | Inr payload \<Rightarrow> py_loads env payload))))"

text \<open>
  \<open>_patch_interaction\<close>: the two exceptions of \<open>urllib\<close> are logged and swallowed.
\<close>

definition patch_interaction ::
  "executor \<Rightarrow> pyval \<Rightarrow> string \<Rightarrow> py_error option \<times> action list" where
  "patch_interaction env interaction_token content =
     (case urlopen env interaction_token content of
        Responded \<Rightarrow> (None, [PatchInteraction interaction_token content])
      | HTTPError \<Rightarrow> (None, [PatchInteraction interaction_token content])
      | URLError \<Rightarrow> (None, [PatchInteraction interaction_token content])
      | UrlopenRaises e \<Rightarrow> (Some e, [PatchInteraction interaction_token content]))"

text \<open>\<open>handler\<close> of the executor: \<open>Inr ()\<close> when it returns, and the calls it made.\<close>

definition instance_handler :: "executor \<Rightarrow> pyval \<Rightarrow> (py_error + unit) \<times> action list" where
  "instance_handler env ev =
     (case parse_sns_message env ev of
        Inl e \<Rightarrow> (Inl e, [])
      | Inr message \<Rightarrow>
     (case py_get message ''command'' PNone of
        Inl e \<Rightarrow> (Inl e, [])
      | Inr command \<Rightarrow>
     (case py_get message ''interactionToken'' PNone of
        Inl e \<Rightarrow> (Inl e, [])
      | Inr interaction_token \<Rightarrow>
     (case py_get message ''serverId'' PNone of
        Inl e \<Rightarrow> (Inl e, [])
      | Inr server_id \<Rightarrow>
     (case py_get message ''instanceRegion'' PNone of
        Inl e \<Rightarrow> (Inl e, [])
      | Inr region \<Rightarrow>
          if truthy command \<and> truthy interaction_token \<and> truthy server_id \<and> truthy region
          then
            (case send_ec2_command env server_id region command of
               (Inl e, calls) \<Rightarrow> (Inl e, calls)
             | (Inr ec2_message, calls) \<Rightarrow>
                 (case patch_interaction env interaction_token ec2_message of
                    (Some e, calls') \<Rightarrow> (Inl e, calls @ calls')
                  | (None, calls') \<Rightarrow> (Inr (), calls @ calls')))
          else (Inr (), []))))))"

section \<open>Instances of the external services, for evaluating the handlers\<close>

text \<open>
  A dispatcher whose verifier accepts the one-byte signature \<open>01\<close> and nothing else,
  whose parser returns a given interaction, and whose publish call succeeds.
\<close>

definition stub_intake :: "pyval \<Rightarrow> intake" where
  "stub_intake interaction =
     \<lparr>DISCORD_APP_PUBLIC_KEY = ''00'',
      b64decode = (\<lambda>s. None),
      VerifyKey = (\<lambda>k. None),
      verify = (\<lambda>k m s. if s = [1] then Verified else BadSignatureError),
      decode_utf8 = (\<lambda>b. Some (map char_of b)),
      json_loads = (\<lambda>s. Some interaction),
      sns_publish = (\<lambda>m. None)\<rparr>"

definition signed_event :: event where
  "signed_event =
     \<lparr>headers = Some [(''X-Signature-Ed25519'', ''01''),
                      (''X-Signature-Timestamp'', ''1700000000'')],
      body = Some ''{}'',
      isBase64Encoded = False\<rparr>"

text \<open>A request whose signature header is not hexadecimal.\<close>

definition bad_hex_event :: event where
  "bad_hex_event =
     \<lparr>headers = Some [(''x-signature-ed25519'', ''zz''), (''x-signature-timestamp'', ''1'')],
      body = Some ''{}'',
      isBase64Encoded = False\<rparr>"

text \<open>A command invocation \<open>start\<close> whose \<open>server\<close> option has the value \<open>v\<close>, and a ping.\<close>

definition command_interaction :: "pyval \<Rightarrow> pyval" where
  "command_interaction v =
     PDict [(''type'', PInt 2), (''id'', PStr ''42''), (''token'', PStr ''tok''),
            (''data'', PDict [(''name'', PStr ''start''),
                              (''options'', PList [PDict [(''name'', PStr ''server''),
                                                          (''value'', v)]])])]"

definition ping_interaction :: pyval where
  "ping_interaction = PDict [(''type'', PInt 1), (''data'', PStr ''anything'')]"

text \<open>
  An executor whose lookup gives \<open>described\<close>, whose parser reads the payloads of a
  table, and whose other calls succeed.
\<close>

definition stub_executor ::
  "(py_error + ec2_instance list list) \<Rightarrow> (string \<times> pyval) list \<Rightarrow> executor" where
  "stub_executor described table =
     \<lparr>describe_instances = (\<lambda>region server_id. described),
      start_instances = (\<lambda>region instance_id. None),
      stop_instances = (\<lambda>region instance_id. None),
      reboot_instances = (\<lambda>region instance_id. None),
      loads = map_of table,
      urlopen = (\<lambda>interaction_token content. Responded),
      repr = (\<lambda>v. ''?'')\<rparr>"

definition sns_event :: "string \<Rightarrow> pyval" where
  "sns_event payload =
     PDict [(''Records'', PList [PDict [(''Sns'', PDict [(''Message'', PStr payload)])]])]"

definition channel_message :: "pyval \<Rightarrow> pyval \<Rightarrow> pyval" where
  "channel_message command region =
     PDict [(''interactionId'', PStr ''42''), (''interactionToken'', PStr ''tok''),
            (''command'', command), (''serverId'', PStr ''srv''),
            (''region'', region), (''instanceRegion'', PStr ''us-east-1'')]"

text \<open>
  The instance of the specification's example: public address \<open>1.2.3.4\<close>, the tags
  for the host name \<open>play.example.com\<close> and the port \<open>25565\<close>, no public DNS name;
  and an instance with a public address and no tag.
\<close>

definition example_instance :: ec2_instance where
  "example_instance =
     \<lparr>InstanceId = Some ''i-0123456789abcdef0'',
      PublicDnsName = Some '''',
      PublicIpAddress = Some ''1.2.3.4'',
      Tags = Some [\<lparr>Key = Some ''GameServerEC2Discord:ServerId'', Value = Some ''srv''\<rparr>,
                   \<lparr>Key = Some ''GameServerEC2Discord:Hostname'',
                    Value = Some ''play.example.com''\<rparr>,
                   \<lparr>Key = Some ''GameServerEC2Discord:MainPort'', Value = Some ''25565''\<rparr>],
      State = Some (Some ''running'')\<rparr>"

definition untagged_instance :: ec2_instance where
  "untagged_instance =
     \<lparr>InstanceId = Some ''i-0123456789abcdef0'',
      PublicDnsName = None,
      PublicIpAddress = Some ''1.2.3.4'',
      Tags = None,
      State = Some (Some ''running'')\<rparr>"

text \<open>Two channel messages that differ in \<open>region\<close> only, by their payloads.\<close>

definition two_messages :: "(string \<times> pyval) list" where
  "two_messages =
     [(''a'', channel_message (PStr ''start'') (PStr ''us-east-1'')),
      (''b'', channel_message (PStr ''start'') (PStr ''eu-west-9''))]"

text \<open>The region an action addresses, when it addresses one.\<close>

fun action_region :: "action \<Rightarrow> pyval option" where
  "action_region (DescribeInstances region server_id) = Some region"
| "action_region (StartInstances region instance_id) = Some region"
| "action_region (StopInstances region instance_id) = Some region"
| "action_region (RebootInstances region instance_id) = Some region"
| "action_region (PatchInteraction interaction_token content) = None"

section \<open>Evaluation of the header lookup and of \<open>fromhex\<close>\<close>

lemma lower_signature_header: "lower ''X-Signature-Ed25519'' = ''x-signature-ed25519''"
  by (simp add: lower_def lower_char_def)

lemma lower_timestamp_header: "lower ''X-Signature-Timestamp'' = ''x-signature-timestamp''"
  by (simp add: lower_def lower_char_def)

lemma lower_signature_name: "lower ''x-signature-ed25519'' = ''x-signature-ed25519''"
  by (simp add: lower_def lower_char_def)

lemma lower_timestamp_name: "lower ''x-signature-timestamp'' = ''x-signature-timestamp''"
  by (simp add: lower_def lower_char_def)

lemmas lower_names =
  lower_signature_header lower_timestamp_header lower_signature_name lower_timestamp_name

lemma signed_event_signature:
  "get_header (headers signed_event) ''x-signature-ed25519'' = Some ''01''"
  by (simp add: signed_event_def get_header_def lower_names)

lemma signed_event_timestamp:
  "get_header (headers signed_event) ''x-signature-timestamp'' = Some ''1700000000''"
  by (simp add: signed_event_def get_header_def lower_names)

lemma bad_hex_event_signature:
  "get_header (headers bad_hex_event) ''x-signature-ed25519'' = Some ''zz''"
  by (simp add: bad_hex_event_def get_header_def lower_names)

lemma bad_hex_event_timestamp:
  "get_header (headers bad_hex_event) ''x-signature-timestamp'' = Some ''1''"
  by (simp add: bad_hex_event_def get_header_def lower_names)

lemma fromhex_00: "fromhex ''00'' = Inr [0]"
  by (simp add: is_space_def hex_digit_def)

lemma fromhex_01: "fromhex ''01'' = Inr [1]"
  by (simp add: is_space_def hex_digit_def)

lemma fromhex_zz: "fromhex ''zz'' = Inl ValueError"
  by (simp add: is_space_def hex_digit_def)

lemma signed_event_verified: "verify_request (stub_intake j) signed_event b = Inr True"
  by (simp add: verify_request_def signed_event_signature signed_event_timestamp
      fromhex_00 fromhex_01 stub_intake_def del: fromhex.simps)

lemma signed_event_body: "get_body_bytes env signed_event = Inr (encode_utf8 ''{}'')"
  by (simp add: get_body_bytes_def signed_event_def)

lemma stub_intake_loads: "json_loads (stub_intake j) s = Some j"
  by (simp add: stub_intake_def)

lemma stub_intake_decode: "decode_utf8 (stub_intake j) b = Some (map char_of b)"
  by (simp add: stub_intake_def)

lemma stub_intake_publish: "sns_publish (stub_intake j) m = None"
  by (simp add: stub_intake_def)

lemma signed_event_parsed: "parsed_interaction (stub_intake j) signed_event = Some j"
  by (simp add: parsed_interaction_def signed_event_body signed_event_verified
      stub_intake_loads stub_intake_decode)

section \<open>The dispatcher\<close>

lemma verify_request_raises_on_malformed_hex:
  assumes "get_header (headers ev) ''x-signature-ed25519'' = Some signature"
      and "get_header (headers ev) ''x-signature-timestamp'' = Some timestamp"
      and "signature \<noteq> []" and "timestamp \<noteq> []"
      and "fromhex signature = Inl e"
  shows "isl (verify_request env ev body_bytes)"
  using assms by (simp add: verify_request_def split: sum.splits option.splits)

lemma handler_rejects_unverified:
  assumes "get_body_bytes env ev = Inr body_bytes"
      and "verify_request env ev body_bytes = Inr False"
  shows "interaction_handler env ev =
           (Inr (json_response 401 (PDict [(''error'', PStr ''Invalid signature'')])), [])"
  using assms by (simp add: interaction_handler_def)

lemma missing_header_unverified:
  assumes "get_header (headers ev) ''x-signature-ed25519'' \<in> {None, Some []}
         \<or> get_header (headers ev) ''x-signature-timestamp'' \<in> {None, Some []}"
  shows "verify_request env ev body_bytes = Inr False"
  using assms by (auto simp add: verify_request_def split: option.splits)

lemma bad_signature_unverified:
  assumes "get_header (headers ev) ''x-signature-ed25519'' = Some signature"
      and "get_header (headers ev) ''x-signature-timestamp'' = Some timestamp"
      and "signature \<noteq> []" and "timestamp \<noteq> []"
      and "fromhex (DISCORD_APP_PUBLIC_KEY env) = Inr key_bytes"
      and "VerifyKey env key_bytes = None"
      and "fromhex signature = Inr sig_bytes"
      and "verify env key_bytes (encode_utf8 timestamp @ body_bytes) sig_bytes = BadSignatureError"
  shows "verify_request env ev body_bytes = Inr False"
  using assms by (simp add: verify_request_def)

text \<open>
  C2. The claim: the signature verifier returns a boolean and never throws; malformed
  hex in the signature yields \<open>false\<close>. The code: when both headers are present and not
  empty and the signature is not hexadecimal, \<open>_verify_request\<close> raises. The
  \<open>ValueError\<close> of \<open>bytes.fromhex\<close> is not a \<open>BadSignatureError\<close>, so the \<open>except\<close>
  clause lets it pass; with a well-formed key it is that \<open>ValueError\<close> which leaves
  the function.
\<close>

theorem verify_request_malformed_hex:
  assumes "get_header (headers ev) ''x-signature-ed25519'' = Some signature"
      and "get_header (headers ev) ''x-signature-timestamp'' = Some timestamp"
      and "signature \<noteq> []" and "timestamp \<noteq> []"
      and "fromhex signature = Inl e"
  shows "isl (verify_request env ev body_bytes)
       \<and> (case fromhex (DISCORD_APP_PUBLIC_KEY env) of
            Inl e' \<Rightarrow> True
          | Inr key_bytes \<Rightarrow>
              (case VerifyKey env key_bytes of
                 Some e' \<Rightarrow> True
               | None \<Rightarrow> verify_request env ev body_bytes = Inl e))"
  using assms by (simp add: verify_request_def split: sum.splits option.splits)

theorem verify_request_malformed_hex_witness:
  "get_header (headers bad_hex_event) ''x-signature-ed25519'' = Some ''zz''
   \<and> get_header (headers bad_hex_event) ''x-signature-timestamp'' = Some ''1''
   \<and> fromhex ''zz'' = Inl ValueError
   \<and> verify_request (stub_intake PNone) bad_hex_event [] = Inl ValueError"
  using verify_request_malformed_hex [OF bad_hex_event_signature bad_hex_event_timestamp _ _
      fromhex_zz, of "stub_intake PNone" "[]"]
  by (simp add: bad_hex_event_signature bad_hex_event_timestamp fromhex_zz fromhex_00
      stub_intake_def del: fromhex.simps)

text \<open>
  C1. The claim: every request whose signature is invalid gets the response 401. The
  code: for a request whose signature header is not hexadecimal the handler raises
  (the exception of \<open>_verify_request\<close> passes through it), so there is no 401
  response; nothing is parsed and nothing is published.
\<close>

theorem handler_malformed_hex_raises:
  assumes "get_header (headers ev) ''x-signature-ed25519'' = Some signature"
      and "get_header (headers ev) ''x-signature-timestamp'' = Some timestamp"
      and "signature \<noteq> []" and "timestamp \<noteq> []"
      and "fromhex signature = Inl e"
  shows "isl (fst (interaction_handler env ev)) \<and> snd (interaction_handler env ev) = []"
proof (cases "get_body_bytes env ev")
  case (Inl e')
  then show ?thesis by (simp add: interaction_handler_def)
next
  case (Inr body_bytes)
  have "isl (verify_request env ev body_bytes)"
    by (rule verify_request_raises_on_malformed_hex [OF assms])
  then obtain e' where "verify_request env ev body_bytes = Inl e'"
    by (cases "verify_request env ev body_bytes") auto
  with Inr show ?thesis by (simp add: interaction_handler_def)
qed

theorem handler_malformed_hex_raises_witness:
  "get_header (headers bad_hex_event) ''x-signature-ed25519'' = Some ''zz''
   \<and> get_header (headers bad_hex_event) ''x-signature-timestamp'' = Some ''1''
   \<and> fromhex ''zz'' = Inl ValueError
   \<and> interaction_handler (stub_intake PNone) bad_hex_event = (Inl ValueError, [])"
proof -
  have "verify_request (stub_intake PNone) bad_hex_event b = Inl ValueError" for b
    by (simp add: verify_request_def bad_hex_event_signature bad_hex_event_timestamp fromhex_zz
        fromhex_00 stub_intake_def del: fromhex.simps)
  moreover have "get_body_bytes (stub_intake PNone) bad_hex_event = Inr (encode_utf8 ''{}'')"
    by (simp add: get_body_bytes_def bad_hex_event_def)
  ultimately have "interaction_handler (stub_intake PNone) bad_hex_event = (Inl ValueError, [])"
    by (simp add: interaction_handler_def)
  with handler_malformed_hex_raises [OF bad_hex_event_signature bad_hex_event_timestamp _ _
      fromhex_zz, of "stub_intake PNone"]
  show ?thesis
    by (simp add: bad_hex_event_signature bad_hex_event_timestamp fromhex_zz del: fromhex.simps)
qed

lemma py_eq_int_command_not_ping:
  "py_eq_int t APPLICATION_COMMAND_INTERACTION \<Longrightarrow> \<not> py_eq_int t PING_INTERACTION"
  by (cases "(t, PING_INTERACTION)" rule: py_eq_int.cases)
     (auto simp: APPLICATION_COMMAND_INTERACTION_def PING_INTERACTION_def split: if_splits)

lemma handler_of_parsed:
  assumes "parsed_interaction env ev = Some j"
  shows "fst (interaction_handler env ev) = fst (handle_interaction env j)"
    and "published (snd (interaction_handler env ev)) = published (snd (handle_interaction env j))"
  using assms
  by (auto simp: parsed_interaction_def interaction_handler_def
      split: sum.splits option.splits if_splits bool.splits)

lemma split1_at_first:
  assumes "c \<in> set s"
  shows "split1 c s = [takeWhile (\<lambda>x. x \<noteq> c) s, tl (dropWhile (\<lambda>x. x \<noteq> c) s)]"
    and "s = takeWhile (\<lambda>x. x \<noteq> c) s @ [c] @ tl (dropWhile (\<lambda>x. x \<noteq> c) s)"
    and "c \<notin> set (takeWhile (\<lambda>x. x \<noteq> c) s)"
proof -
  show "split1 c s = [takeWhile (\<lambda>x. x \<noteq> c) s, tl (dropWhile (\<lambda>x. x \<noteq> c) s)]"
    using assms by (simp add: split1_def)
  have ne: "dropWhile (\<lambda>x. x \<noteq> c) s \<noteq> []"
    using assms by simp
  then have "hd (dropWhile (\<lambda>x. x \<noteq> c) s) = c"
    using hd_dropWhile [of "\<lambda>x. x \<noteq> c" s] by simp
  with ne have "dropWhile (\<lambda>x. x \<noteq> c) s = c # tl (dropWhile (\<lambda>x. x \<noteq> c) s)"
    by (cases "dropWhile (\<lambda>x. x \<noteq> c) s") auto
  then have "takeWhile (\<lambda>x. x \<noteq> c) s @ [c] @ tl (dropWhile (\<lambda>x. x \<noteq> c) s)
             = takeWhile (\<lambda>x. x \<noteq> c) s @ dropWhile (\<lambda>x. x \<noteq> c) s"
    by simp
  then show "s = takeWhile (\<lambda>x. x \<noteq> c) s @ [c] @ tl (dropWhile (\<lambda>x. x \<noteq> c) s)"
    by simp
  show "c \<notin> set (takeWhile (\<lambda>x. x \<noteq> c) s)"
    using set_takeWhileD [of c "\<lambda>x. x \<noteq> c" s] by blast
qed

lemma published_of_handle_interaction:
  assumes "m \<in> set (published (snd (handle_interaction env j)))"
  shows "\<exists>command interaction_id interaction_token region server_id.
           m = sns_message command interaction_id interaction_token region server_id"
  using assms
  apply (auto simp: handle_interaction_def publish_sns_message_def Let_def
      split: sum.splits option.splits if_splits bool.splits prod.splits)
   apply blast+
  done

lemma published_of_interaction_handler:
  assumes "m \<in> set (published (snd (interaction_handler env ev)))"
  shows "\<exists>command interaction_id interaction_token region server_id.
           m = sns_message command interaction_id interaction_token region server_id"
proof -
  from assms obtain j where "m \<in> set (published (snd (handle_interaction env j)))"
    by (auto simp: interaction_handler_def
        split: sum.splits option.splits if_splits bool.splits)
  then show ?thesis by (rule published_of_handle_interaction)
qed

text \<open>
  C7. A request that passes verification and whose body parses to a dictionary with
  a \<open>type\<close> equal to the ping constant is answered with status 200 and the body
  \<open>{type: 1}\<close>, whatever else the dictionary holds, and nothing is published.
\<close>

theorem ping_acknowledged:
  assumes "parsed_interaction env ev = Some interaction"
      and "py_get interaction ''type'' PNone = Inr t"
      and "py_eq_int t PING_INTERACTION"
  shows "fst (interaction_handler env ev)
           = Inr \<lparr>statusCode = 200,
                  resp_headers = [(''content-type'', ''application/json'')],
                  resp_body = PDict [(''type'', PInt 1)]\<rparr>
       \<and> published (snd (interaction_handler env ev)) = []"
  using assms(2,3)
  by (simp add: handler_of_parsed [OF assms(1)] handle_interaction_def PING_INTERACTION_def
      json_response_def)

theorem ping_acknowledged_witness:
  "parsed_interaction (stub_intake ping_interaction) signed_event = Some ping_interaction
   \<and> py_get ping_interaction ''type'' PNone = Inr (PInt 1)
   \<and> py_eq_int (PInt 1) PING_INTERACTION
   \<and> fst (interaction_handler (stub_intake ping_interaction) signed_event)
       = Inr \<lparr>statusCode = 200,
              resp_headers = [(''content-type'', ''application/json'')],
              resp_body = PDict [(''type'', PInt 1)]\<rparr>
   \<and> published (snd (interaction_handler (stub_intake ping_interaction) signed_event)) = []"
proof -
  have t: "py_get ping_interaction ''type'' PNone = Inr (PInt 1)"
    by (simp add: ping_interaction_def)
  have p: "py_eq_int (PInt 1) PING_INTERACTION"
    by (simp add: PING_INTERACTION_def)
  from ping_acknowledged [OF signed_event_parsed t p] t p show ?thesis
    by (simp add: signed_event_parsed)
qed

lemma find_server_loop_of_dicts:
  assumes "\<forall>opt \<in> set os. is_dict opt"
  shows "find_server_loop os = Inr (server_option_value os)"
  using assms
proof (induction os)
  case Nil
  then show ?case by (simp add: server_option_value_def)
next
  case (Cons opt os)
  then obtain kvs where opt: "opt = PDict kvs" by (cases opt) auto
  from Cons have "find_server_loop os = Inr (server_option_value os)" by simp
  then show ?case
    by (simp add: opt server_option_value_def named_server_def)
qed

lemma find_server_option_value_well_formed:
  assumes "py_get interaction ''data'' (PDict []) = Inr (PDict d)"
      and "(case map_of d ''options'' of
              None \<Rightarrow> os = []
            | Some opts \<Rightarrow> (if truthy opts then opts = PList os else os = []))"
      and "\<forall>opt \<in> set os. is_dict opt"
  shows "find_server_option_value interaction = Inr (server_option_value os)"
proof (cases "map_of d ''options''")
  case None
  with assms(1,2) show ?thesis
    by (simp add: find_server_option_value_def py_or_def server_option_value_def)
next
  case (Some opts)
  show ?thesis
  proof (cases "truthy opts")
    case True
    with Some assms(2) have "opts = PList os" by simp
    with Some True assms(1) find_server_loop_of_dicts [OF assms(3)] show ?thesis
      by (simp add: find_server_option_value_def py_or_def)
  next
    case False
    with Some assms(2) have "os = []" by simp
    with Some False assms(1) show ?thesis
      by (simp add: find_server_option_value_def py_or_def server_option_value_def)
  qed
qed

text \<open>
  C5, as the code has it. For a command invocation that passes verification and
  parses, whose \<open>data\<close> is a dictionary (or absent) and whose \<open>options\<close> are absent,
  empty or a list of dictionaries: when no option is named \<open>server\<close>, or the value of
  the first such option is \<open>None\<close> or empty, or that value is a string (or a list,
  or a dictionary) in which \<open>|\<close> does not occur, the response has status 400 and the
  body \<open>{error: Missing server option}\<close>, and nothing is published. The guard tests
  that \<open>|\<close> occurs, not that it occurs once.
\<close>

theorem missing_server_option_rejected:
  assumes "parsed_interaction env ev = Some interaction"
      and "py_get interaction ''type'' PNone = Inr t"
      and "py_eq_int t APPLICATION_COMMAND_INTERACTION"
      and "py_get interaction ''data'' (PDict []) = Inr (PDict d)"
      and "(case map_of d ''options'' of
              None \<Rightarrow> os = []
            | Some opts \<Rightarrow> (if truthy opts then opts = PList os else os = []))"
      and "\<forall>opt \<in> set os. is_dict opt"
      and "\<not> truthy (server_option_value os)
           \<or> py_in_char (CHR ''|'') (server_option_value os) = Inr False"
  shows "fst (interaction_handler env ev)
           = Inr \<lparr>statusCode = 400,
                  resp_headers = [(''content-type'', ''application/json'')],
                  resp_body = PDict [(''error'', PStr ''Missing server option'')]\<rparr>
       \<and> published (snd (interaction_handler env ev)) = []"
proof -
  have v: "find_server_option_value interaction = Inr (server_option_value os)"
    by (rule find_server_option_value_well_formed [OF assms(4-6)])
  from assms(2,3,7) v py_eq_int_command_not_ping [OF assms(3)] show ?thesis
    by (auto simp add: handler_of_parsed [OF assms(1)] handle_interaction_def json_response_def)
qed

lemma command_interaction_type:
  "py_get (command_interaction v) ''type'' PNone = Inr (PInt 2)"
  by (simp add: command_interaction_def)

lemma command_type_2: "py_eq_int (PInt 2) APPLICATION_COMMAND_INTERACTION"
  by (simp add: APPLICATION_COMMAND_INTERACTION_def)

lemma command_interaction_server:
  "find_server_option_value (command_interaction v) = Inr v"
  by (simp add: command_interaction_def find_server_option_value_def py_or_def)

lemma command_interaction_fields:
  "py_get (command_interaction v) ''data'' (PDict [])
     = Inr (PDict [(''name'', PStr ''start''),
                   (''options'', PList [PDict [(''name'', PStr ''server''), (''value'', v)]])])"
  "py_get (command_interaction v) ''id'' PNone = Inr (PStr ''42'')"
  "py_get (command_interaction v) ''token'' PNone = Inr (PStr ''tok'')"
  by (simp_all add: command_interaction_def)

lemma decode_encode: "map char_of (encode_utf8 s) = s"
  by (simp add: encode_utf8_def comp_def)

theorem missing_server_option_rejected_witness:
  "parsed_interaction (stub_intake (command_interaction (PStr ''us-east-1''))) signed_event
     = Some (command_interaction (PStr ''us-east-1''))
   \<and> py_get (command_interaction (PStr ''us-east-1'')) ''data'' (PDict [])
       = Inr (PDict [(''name'', PStr ''start''),
                     (''options'', PList [PDict [(''name'', PStr ''server''),
                                                 (''value'', PStr ''us-east-1'')]])])
   \<and> server_option_value [PDict [(''name'', PStr ''server''), (''value'', PStr ''us-east-1'')]]
       = PStr ''us-east-1''
   \<and> py_in_char (CHR ''|'') (PStr ''us-east-1'') = Inr False
   \<and> fst (interaction_handler (stub_intake (command_interaction (PStr ''us-east-1''))) signed_event)
       = Inr \<lparr>statusCode = 400,
              resp_headers = [(''content-type'', ''application/json'')],
              resp_body = PDict [(''error'', PStr ''Missing server option'')]\<rparr>
   \<and> published
        (snd (interaction_handler (stub_intake (command_interaction (PStr ''us-east-1'')))
               signed_event)) = []"
proof -
  let ?os = "[PDict [(''name'', PStr ''server''), (''value'', PStr ''us-east-1'')]]"
  let ?d = "[(''name'', PStr ''start''), (''options'', PList ?os)]"
  have v: "server_option_value ?os = PStr ''us-east-1''"
    by (simp add: server_option_value_def named_server_def)
  have o: "(case map_of ?d ''options'' of
              None \<Rightarrow> ?os = []
            | Some opts \<Rightarrow> (if truthy opts then opts = PList ?os else ?os = []))"
    by simp
  have w: "\<forall>opt \<in> set ?os. is_dict opt"
    by simp
  have n: "\<not> truthy (server_option_value ?os)
           \<or> py_in_char (CHR ''|'') (server_option_value ?os) = Inr False"
    by (simp add: v)
  from missing_server_option_rejected [OF signed_event_parsed command_interaction_type
      command_type_2 command_interaction_fields(1) o w n] v
  show ?thesis
    by (simp add: signed_event_parsed command_interaction_fields(1))
qed

text \<open>
  The claim C5 as stated fails: the value \<open>a|b|c\<close> holds two separators, and the
  request is accepted with status 200 and published, with region \<open>a\<close> and server id
  \<open>b|c\<close>.
\<close>

theorem two_separators_accepted:
  "count_list ''a|b|c'' (CHR ''|'') = 2
   \<and> interaction_handler (stub_intake (command_interaction (PStr ''a|b|c''))) signed_event
       = (Inr \<lparr>statusCode = 200,
               resp_headers = [(''content-type'', ''application/json'')],
               resp_body = PDict [(''type'', PInt 5)]\<rparr>,
          [JsonLoads ''{}'',
           SnsPublish (PDict [(''interactionId'', PStr ''42''),
                              (''interactionToken'', PStr ''tok''),
                              (''command'', PStr ''start''),
                              (''serverId'', PStr ''b|c''),
                              (''region'', PStr ''a''),
                              (''instanceRegion'', PStr ''a'')])])"
proof -
  have s: "py_split_pair (PStr ''a|b|c'') = Inr (''a'', ''b|c'')"
    by (simp add: split1_def)
  have n: "py_get (PDict [(''name'', PStr ''start''),
                   (''options'', PList [PDict [(''name'', PStr ''server''),
                       (''value'', PStr ''a|b|c'')]])]) ''name'' PNone
            = Inr (PStr ''start'')"
    by simp
  have "handle_interaction (stub_intake (command_interaction (PStr ''a|b|c'')))
          (command_interaction (PStr ''a|b|c''))
        = (Inr (json_response 200 (PDict [(''type'', PInt 5)])),
           [SnsPublish (sns_message (PStr ''start'') (PStr ''42'') (PStr ''tok'') ''a'' ''b|c'')])"
    by (simp add: handle_interaction_def command_interaction_type command_interaction_server
        command_interaction_fields n s APPLICATION_COMMAND_INTERACTION_def PING_INTERACTION_def
        DEFERRED_CHANNEL_MESSAGE_WITH_SOURCE_def publish_sns_message_def stub_intake_publish
        del: py_split_pair.simps py_get.simps)
  then show ?thesis
    by (simp add: interaction_handler_def signed_event_body signed_event_verified
        stub_intake_loads stub_intake_decode decode_encode json_response_def sns_message_def)
qed

text \<open>
  C6. For a command invocation that passes verification and parses, whose \<open>server\<close>
  option is a string \<open>s\<close> in which \<open>|\<close> occurs and whose command name, id and token are
  present: one message is published, the dictionary whose \<open>region\<close> and
  \<open>instanceRegion\<close> are the text of \<open>s\<close> before its first \<open>|\<close>, whose \<open>serverId\<close> is the
  text after it, and whose \<open>command\<close>, \<open>interactionId\<close> and \<open>interactionToken\<close> are
  those of the interaction; the response has status 200 and the body \<open>{type: 5}\<close>
  when the publish call returns.
\<close>

theorem region_and_server_id_split_at_first_separator:
  assumes "parsed_interaction env ev = Some interaction"
      and "py_get interaction ''type'' PNone = Inr t"
      and "py_eq_int t APPLICATION_COMMAND_INTERACTION"
      and "find_server_option_value interaction = Inr (PStr s)"
      and "CHR ''|'' \<in> set s"
      and "py_get interaction ''data'' (PDict []) = Inr data"
      and "py_get data ''name'' PNone = Inr command_name"
      and "py_get interaction ''id'' PNone = Inr interaction_id"
      and "py_get interaction ''token'' PNone = Inr interaction_token"
      and "truthy command_name" and "truthy interaction_id" and "truthy interaction_token"
  shows "(let region = takeWhile (\<lambda>c. c \<noteq> CHR ''|'') s;
              server_id = tl (dropWhile (\<lambda>c. c \<noteq> CHR ''|'') s);
              m = PDict [(''interactionId'', interaction_id),
                         (''interactionToken'', interaction_token),
                         (''command'', command_name),
                         (''serverId'', PStr server_id),
                         (''region'', PStr region),
                         (''instanceRegion'', PStr region)]
          in s = region @ ''|'' @ server_id
           \<and> CHR ''|'' \<notin> set region
           \<and> published (snd (interaction_handler env ev)) = [m]
           \<and> fst (interaction_handler env ev)
               = (case sns_publish env m of
                    None \<Rightarrow> Inr \<lparr>statusCode = 200,
                                  resp_headers = [(''content-type'', ''application/json'')],
                                  resp_body = PDict [(''type'', PInt 5)]\<rparr>
                  | Some e \<Rightarrow> Inl e))"
proof -
  have ne: "s \<noteq> []" using assms(5) by auto
  note sp = split1_at_first [OF assms(5)]
  have "published (snd (handle_interaction env interaction))
          = [sns_message command_name interaction_id interaction_token
               (takeWhile (\<lambda>c. c \<noteq> CHR ''|'') s) (tl (dropWhile (\<lambda>c. c \<noteq> CHR ''|'') s))]"
    using assms(2-12) py_eq_int_command_not_ping [OF assms(3)] ne
    by (simp add: handle_interaction_def sp(1) publish_sns_message_def Let_def
        split: option.splits)
  moreover have "fst (handle_interaction env interaction)
          = (case sns_publish env (sns_message command_name interaction_id interaction_token
               (takeWhile (\<lambda>c. c \<noteq> CHR ''|'') s) (tl (dropWhile (\<lambda>c. c \<noteq> CHR ''|'') s))) of
                    None \<Rightarrow> Inr (json_response 200 (PDict [(''type'', PInt 5)]))
                  | Some e \<Rightarrow> Inl e)"
    using assms(2-12) py_eq_int_command_not_ping [OF assms(3)] ne
    by (simp add: handle_interaction_def sp(1) publish_sns_message_def Let_def
        DEFERRED_CHANNEL_MESSAGE_WITH_SOURCE_def split: option.splits)
  ultimately show ?thesis
    using sp(2,3)
    by (simp add: handler_of_parsed [OF assms(1)] Let_def sns_message_def json_response_def
        split: option.splits)
qed

theorem region_and_server_id_split_at_first_separator_witness:
  "parsed_interaction (stub_intake (command_interaction (PStr ''us-east-1|i-0123456789abcdef0'')))
      signed_event = Some (command_interaction (PStr ''us-east-1|i-0123456789abcdef0''))
   \<and> find_server_option_value (command_interaction (PStr ''us-east-1|i-0123456789abcdef0''))
       = Inr (PStr ''us-east-1|i-0123456789abcdef0'')
   \<and> published (snd (interaction_handler
         (stub_intake (command_interaction (PStr ''us-east-1|i-0123456789abcdef0'')))
         signed_event))
       = [PDict [(''interactionId'', PStr ''42''),
                 (''interactionToken'', PStr ''tok''),
                 (''command'', PStr ''start''),
                 (''serverId'', PStr ''i-0123456789abcdef0''),
                 (''region'', PStr ''us-east-1''),
                 (''instanceRegion'', PStr ''us-east-1'')]]
   \<and> fst (interaction_handler
         (stub_intake (command_interaction (PStr ''us-east-1|i-0123456789abcdef0'')))
         signed_event)
       = Inr \<lparr>statusCode = 200,
              resp_headers = [(''content-type'', ''application/json'')],
              resp_body = PDict [(''type'', PInt 5)]\<rparr>"
proof -
  have b: "CHR ''|'' \<in> set ''us-east-1|i-0123456789abcdef0''" by simp
  have n: "py_get (PDict [(''name'', PStr ''start''),
                   (''options'', PList [PDict [(''name'', PStr ''server''),
                       (''value'', PStr ''us-east-1|i-0123456789abcdef0'')]])]) ''name'' PNone
            = Inr (PStr ''start'')"
    by simp
  from region_and_server_id_split_at_first_separator [OF signed_event_parsed
      command_interaction_type command_type_2 command_interaction_server b
      command_interaction_fields(1) n command_interaction_fields(2,3)]
  show ?thesis
    by (simp add: signed_event_parsed command_interaction_server stub_intake_publish Let_def)
qed

section \<open>The executor\<close>

lemma send_ec2_command_regions:
  assumes "a \<in> set (snd (send_ec2_command env server_id region command))"
  shows "action_region a = Some region"
  using assms
  by (auto simp: send_ec2_command_def find_instance_def Let_def
      split: sum.splits option.splits if_splits)

lemma patch_interaction_regions:
  assumes "a \<in> set (snd (patch_interaction env interaction_token content))"
  shows "action_region a = None"
  using assms by (auto simp: patch_interaction_def split: urlopen_result.splits)

lemma client_error_becomes_outcome:
  assumes "describe_instances env region server_id = Inr reservations"
      and "first_instance reservations = Some inst"
      and "InstanceId inst = Some instance_id" and "instance_id \<noteq> []"
      and "start_instances env region instance_id = Some (ClientError exc)"
  shows "fst (send_ec2_command env server_id region (PStr ''start''))
           = Inr (''Error executing command:'' @ newline @ backtick @ backtick @ backtick
                  @ newline @ exc @ newline @ backtick @ backtick @ backtick)"
  using assms by (simp add: send_ec2_command_def find_instance_def)

text \<open>
  C3. The claim: \<open>execute\<close> never raises; a failure of the tag-based lookup is
  caught and becomes an outcome. The code: \<open>_find_instance\<close> is called before the
  \<open>try\<close>, so whatever \<open>describe_instances\<close> raises leaves \<open>_send_ec2_command\<close>, for
  every command, after that one call.
\<close>

theorem lookup_failure_propagates:
  assumes "describe_instances env region server_id = Inl e"
  shows "send_ec2_command env server_id region command
           = (Inl e, [DescribeInstances region server_id])"
  using assms by (simp add: send_ec2_command_def find_instance_def)

theorem lookup_failure_propagates_witness:
  "describe_instances (stub_executor (Inl (ClientError ''UnauthorizedOperation'')) [])
      (PStr ''us-east-1'') (PStr ''srv'') = Inl (ClientError ''UnauthorizedOperation'')
   \<and> send_ec2_command (stub_executor (Inl (ClientError ''UnauthorizedOperation'')) [])
        (PStr ''srv'') (PStr ''us-east-1'') (PStr ''start'')
       = (Inl (ClientError ''UnauthorizedOperation''),
          [DescribeInstances (PStr ''us-east-1'') (PStr ''srv'')])"
proof -
  have d: "describe_instances (stub_executor (Inl (ClientError ''UnauthorizedOperation'')) [])
      (PStr ''us-east-1'') (PStr ''srv'') = Inl (ClientError ''UnauthorizedOperation'')"
    by (simp add: stub_executor_def)
  from lookup_failure_propagates [OF d, of "PStr ''start''"] d show ?thesis by simp
qed

lemma example_instance_tags:
  "get_tag (Tags example_instance) ''GameServerEC2Discord:Hostname'' = Some ''play.example.com''"
  "get_tag (Tags example_instance) ''GameServerEC2Discord:MainPort'' = Some ''25565''"
  by (simp_all add: example_instance_def get_tag_def)

text \<open>
  The example of the specification: a header line and two address lines, each with
  the port, and no line for the DNS name.
\<close>

lemma format_address_message_example:
  "format_address_message example_instance
     = join newline [''Addresses:'',
                     ''- **'' @ backtick @ ''1.2.3.4:25565'' @ backtick @ ''**'',
                     ''- '' @ backtick @ ''play.example.com:25565'' @ backtick]"
  by (simp add: format_address_message_def example_instance_tags Let_def)
     (simp add: example_instance_def)

lemma format_address_message_header_only:
  assumes "\<not> present (PublicIpAddress inst)" and "\<not> present (PublicDnsName inst)"
      and "\<not> present (get_tag (Tags inst) ''GameServerEC2Discord:Hostname'')"
  shows "format_address_message inst = ''Addresses:''"
  using assms by (simp add: format_address_message_def Let_def)

text \<open>
  C4. The claim: an address is paired with the port only if the port tag is present.
  The code: the port is formatted into every address line, so for an instance with a
  public address and no port tag the line ends in \<open>:None\<close>.
\<close>

theorem address_line_without_port_tag:
  assumes "PublicIpAddress inst = Some public_ip" and "public_ip \<noteq> []"
      and "\<not> present (PublicDnsName inst)"
      and "get_tag (Tags inst) ''GameServerEC2Discord:Hostname'' = None"
      and "get_tag (Tags inst) ''GameServerEC2Discord:MainPort'' = None"
  shows "format_address_message inst
           = ''Addresses:'' @ newline
             @ ''- **'' @ backtick @ public_ip @ '':None'' @ backtick @ ''**''"
  using assms by (simp add: format_address_message_def Let_def)

theorem address_line_without_port_tag_witness:
  "PublicIpAddress untagged_instance = Some ''1.2.3.4''
   \<and> get_tag (Tags untagged_instance) ''GameServerEC2Discord:MainPort'' = None
   \<and> format_address_message untagged_instance
       = ''Addresses:'' @ newline @ ''- **'' @ backtick @ ''1.2.3.4:None'' @ backtick @ ''**''"
proof -
  have a: "PublicIpAddress untagged_instance = Some ''1.2.3.4''"
    and b: "''1.2.3.4'' \<noteq> []"
    and c: "\<not> present (PublicDnsName untagged_instance)"
    and d: "get_tag (Tags untagged_instance) ''GameServerEC2Discord:Hostname'' = None"
    and e: "get_tag (Tags untagged_instance) ''GameServerEC2Discord:MainPort'' = None"
    by (simp_all add: untagged_instance_def get_tag_def)
  from address_line_without_port_tag [OF a b c d e] a e show ?thesis by simp
qed

text \<open>
  C8. When the lookup returns and finds no instance (no reservation holds one, or
  the first one has no instance id), \<open>_send_ec2_command\<close> returns the not-found
  message, for every command, and the lookup is the only call it makes.
\<close>

theorem unresolved_instance_not_found:
  assumes "describe_instances env region server_id = Inr reservations"
      and "(case first_instance reservations of
              None \<Rightarrow> True
            | Some inst \<Rightarrow> \<not> present (InstanceId inst))"
  shows "send_ec2_command env server_id region command
           = (Inr (''Instance with server ID '' @ py_str (repr env) server_id
                   @ '' not found on region '' @ py_str (repr env) region),
              [DescribeInstances region server_id])"
proof (cases "first_instance reservations")
  case None
  with assms(1) show ?thesis
    by (simp add: send_ec2_command_def find_instance_def not_found_message_def)
next
  case (Some inst)
  with assms(2) have "\<not> present (InstanceId inst)" by simp
  with assms(1) Some show ?thesis
    by (simp add: send_ec2_command_def find_instance_def not_found_message_def)
qed

theorem unresolved_instance_not_found_witness:
  "describe_instances (stub_executor (Inr [[]]) []) (PStr ''us-east-1'') (PStr ''srv'') = Inr [[]]
   \<and> first_instance [[]] = None
   \<and> send_ec2_command (stub_executor (Inr [[]]) []) (PStr ''srv'') (PStr ''us-east-1'')
        (PStr ''start'')
       = (Inr ''Instance with server ID srv not found on region us-east-1'',
          [DescribeInstances (PStr ''us-east-1'') (PStr ''srv'')])"
proof -
  have d: "describe_instances (stub_executor (Inr [[]]) []) (PStr ''us-east-1'') (PStr ''srv'')
             = Inr [[]]"
    by (simp add: stub_executor_def)
  have n: "(case first_instance [[]] of
              None \<Rightarrow> True
            | Some inst \<Rightarrow> \<not> present (InstanceId inst))"
    by simp
  from unresolved_instance_not_found [OF d n, of "PStr ''start''"] d show ?thesis by simp
qed

lemma stub_parses_payload:
  assumes "map_of table payload = Some message"
  shows "parse_sns_message (stub_executor described table) (sns_event payload) = Inr message"
  using assms by (simp add: parse_sns_message_def sns_event_def py_or_def stub_executor_def)

text \<open>
  C10. When the message of the event is a dictionary in which one of \<open>command\<close>,
  \<open>interactionToken\<close>, \<open>serverId\<close> and \<open>instanceRegion\<close> is missing, or is there and
  empty, the handler returns and has made no call: no lookup, no action, no edit.
\<close>

theorem incomplete_message_dropped:
  assumes "parse_sns_message env ev = Inr (PDict m)"
      and "k \<in> {''command'', ''interactionToken'', ''serverId'', ''instanceRegion''}"
      and "(case map_of m k of None \<Rightarrow> True | Some v \<Rightarrow> \<not> truthy v)"
  shows "instance_handler env ev = (Inr (), [])"
  using assms by (auto simp: instance_handler_def split: option.splits)

theorem incomplete_message_dropped_witness:
  "parse_sns_message
      (stub_executor (Inr [[example_instance]])
         [(''m'', PDict [(''command'', PStr ''start''), (''interactionToken'', PStr ''tok''),
                         (''serverId'', PStr ''''), (''instanceRegion'', PStr ''us-east-1'')])])
      (sns_event ''m'')
     = Inr (PDict [(''command'', PStr ''start''), (''interactionToken'', PStr ''tok''),
                   (''serverId'', PStr ''''), (''instanceRegion'', PStr ''us-east-1'')])
   \<and> instance_handler
      (stub_executor (Inr [[example_instance]])
         [(''m'', PDict [(''command'', PStr ''start''), (''interactionToken'', PStr ''tok''),
                         (''serverId'', PStr ''''), (''instanceRegion'', PStr ''us-east-1'')])])
      (sns_event ''m'')
     = (Inr (), [])"
proof -
  let ?m = "[(''command'', PStr ''start''), (''interactionToken'', PStr ''tok''),
             (''serverId'', PStr ''''), (''instanceRegion'', PStr ''us-east-1'')]"
  have p: "parse_sns_message (stub_executor (Inr [[example_instance]]) [(''m'', PDict ?m)])
             (sns_event ''m'') = Inr (PDict ?m)"
    by (rule stub_parses_payload) simp
  have k: "''serverId'' \<in> {''command'', ''interactionToken'', ''serverId'', ''instanceRegion''}"
    by simp
  have v: "(case map_of ?m ''serverId'' of None \<Rightarrow> True | Some v \<Rightarrow> \<not> truthy v)"
    by simp
  from incomplete_message_dropped [OF p k v] p show ?thesis by simp
qed

section \<open>The message between the two handlers\<close>

lemma sns_message_regions:
  "py_get (sns_message command interaction_id interaction_token region server_id)
     ''region'' PNone = Inr (PStr region)"
  "py_get (sns_message command interaction_id interaction_token region server_id)
     ''instanceRegion'' PNone = Inr (PStr region)"
  by (simp_all add: sns_message_def)

lemma instance_handler_regions:
  assumes "parse_sns_message ex ev = Inr (PDict m)"
      and "a \<in> set (snd (instance_handler ex ev))"
      and "action_region a = Some r"
  shows "py_get (PDict m) ''instanceRegion'' PNone = Inr r"
proof -
  let ?get = "\<lambda>k. (case map_of m k of None \<Rightarrow> PNone | Some v \<Rightarrow> v)"
  have run: "truthy (?get ''command'') \<and> truthy (?get ''interactionToken'')
           \<and> truthy (?get ''serverId'') \<and> truthy (?get ''instanceRegion'')"
    using assms(1,2) by (auto simp: instance_handler_def split: if_splits)
  obtain res calls where s:
    "send_ec2_command ex (?get ''serverId'') (?get ''instanceRegion'') (?get ''command'')
       = (res, calls)"
    by (cases "send_ec2_command ex (?get ''serverId'') (?get ''instanceRegion'')
                 (?get ''command'')")
  have calls: "action_region b = Some (?get ''instanceRegion'')" if "b \<in> set calls" for b
    using send_ec2_command_regions [of b ex "?get ''serverId''" "?get ''instanceRegion''"
        "?get ''command''"] that s by simp
  have "a \<in> set calls \<or> (\<exists>content. a \<in> set (snd (patch_interaction ex
           (?get ''interactionToken'') content)))"
    using assms(1,2) run s
    apply (auto simp: instance_handler_def split: sum.splits option.splits prod.splits)
     apply (metis snd_conv)+
    done
  then show ?thesis
  proof
    assume "a \<in> set calls"
    from calls [OF this] assms(3) show ?thesis by simp
  next
    assume "\<exists>content. a \<in> set (snd (patch_interaction ex (?get ''interactionToken'') content))"
    then obtain content where
      "a \<in> set (snd (patch_interaction ex (?get ''interactionToken'') content))" ..
    from patch_interaction_regions [OF this] assms(3) show ?thesis by simp
  qed
qed

lemma instance_handler_ignores_region:
  assumes "parse_sns_message ex ev1 = Inr (PDict m1)"
      and "parse_sns_message ex ev2 = Inr (PDict m2)"
      and "\<forall>k. k \<noteq> ''region'' \<longrightarrow> map_of m1 k = map_of m2 k"
  shows "instance_handler ex ev1 = instance_handler ex ev2"
proof -
  have "map_of m1 ''command'' = map_of m2 ''command''"
    and "map_of m1 ''interactionToken'' = map_of m2 ''interactionToken''"
    and "map_of m1 ''serverId'' = map_of m2 ''serverId''"
    and "map_of m1 ''instanceRegion'' = map_of m2 ''instanceRegion''"
    using assms(3) by simp_all
  with assms(1,2) show ?thesis by (simp add: instance_handler_def)
qed

lemma stub_publishes_example:
  "published (snd (interaction_handler
      (stub_intake (command_interaction (PStr ''us-east-1|i-0123456789abcdef0'')))
      signed_event))
   = [sns_message (PStr ''start'') (PStr ''42'') (PStr ''tok'')
        ''us-east-1'' ''i-0123456789abcdef0'']"
proof -
  have s: "py_split_pair (PStr ''us-east-1|i-0123456789abcdef0'')
             = Inr (''us-east-1'', ''i-0123456789abcdef0'')"
    by (simp add: split1_def)
  have n: "py_get (PDict [(''name'', PStr ''start''),
                   (''options'', PList [PDict [(''name'', PStr ''server''),
                       (''value'', PStr ''us-east-1|i-0123456789abcdef0'')]])]) ''name'' PNone
            = Inr (PStr ''start'')"
    by simp
  have "published (snd (handle_interaction
          (stub_intake (command_interaction (PStr ''us-east-1|i-0123456789abcdef0'')))
          (command_interaction (PStr ''us-east-1|i-0123456789abcdef0''))))
        = [sns_message (PStr ''start'') (PStr ''42'') (PStr ''tok'')
             ''us-east-1'' ''i-0123456789abcdef0'']"
    by (simp add: handle_interaction_def command_interaction_type command_interaction_server
        command_interaction_fields n s APPLICATION_COMMAND_INTERACTION_def PING_INTERACTION_def
        publish_sns_message_def stub_intake_publish
        del: py_split_pair.simps py_get.simps)
  then show ?thesis
    by (simp add: handler_of_parsed [OF signed_event_parsed])
qed

lemma stub_executor_starts:
  assumes "map_of table payload = Some (channel_message (PStr ''start'') region)"
  shows "instance_handler (stub_executor (Inr [[example_instance]]) table) (sns_event payload)
           = (Inr (),
              [DescribeInstances (PStr ''us-east-1'') (PStr ''srv''),
               StartInstances (PStr ''us-east-1'') ''i-0123456789abcdef0'',
               PatchInteraction (PStr ''tok'') ''Starting...''])"
proof -
  have s: "send_ec2_command (stub_executor (Inr [[example_instance]]) table)
             (PStr ''srv'') (PStr ''us-east-1'') (PStr ''start'')
           = (Inr ''Starting...'',
              [DescribeInstances (PStr ''us-east-1'') (PStr ''srv''),
               StartInstances (PStr ''us-east-1'') ''i-0123456789abcdef0''])"
    by (simp add: send_ec2_command_def find_instance_def stub_executor_def example_instance_def)
  have p: "patch_interaction (stub_executor (Inr [[example_instance]]) table)
             (PStr ''tok'') ''Starting...''
           = (None, [PatchInteraction (PStr ''tok'') ''Starting...''])"
    by (simp add: patch_interaction_def stub_executor_def)
  show ?thesis
    by (simp add: instance_handler_def stub_parses_payload [OF assms] channel_message_def s p)
qed

text \<open>
  C9. Every message the dispatcher publishes has the fields \<open>region\<close> and
  \<open>instanceRegion\<close>, with the same string. The executor does the same on two messages
  that differ in \<open>region\<close> only, and every call of its run that addresses a region
  addresses the one in \<open>instanceRegion\<close>.
\<close>

theorem region_fields_agree_and_executor_reads_instanceRegion:
  "(\<forall>m \<in> set (published (snd (interaction_handler env ev))).
      \<exists>r. py_get m ''region'' PNone = Inr (PStr r)
        \<and> py_get m ''instanceRegion'' PNone = Inr (PStr r))
   \<and> (parse_sns_message ex ev1 = Inr (PDict m1)
       \<longrightarrow> parse_sns_message ex ev2 = Inr (PDict m2)
       \<longrightarrow> (\<forall>k. k \<noteq> ''region'' \<longrightarrow> map_of m1 k = map_of m2 k)
       \<longrightarrow> instance_handler ex ev1 = instance_handler ex ev2)
   \<and> (parse_sns_message ex ev1 = Inr (PDict m1)
       \<longrightarrow> (\<forall>a \<in> set (snd (instance_handler ex ev1)). \<forall>r. action_region a = Some r
             \<longrightarrow> py_get (PDict m1) ''instanceRegion'' PNone = Inr r))"
proof (intro conjI ballI impI allI)
  fix m assume "m \<in> set (published (snd (interaction_handler env ev)))"
  from published_of_interaction_handler [OF this]
  show "\<exists>r. py_get m ''region'' PNone = Inr (PStr r)
          \<and> py_get m ''instanceRegion'' PNone = Inr (PStr r)"
    by (auto simp: sns_message_regions)
next
  assume "parse_sns_message ex ev1 = Inr (PDict m1)"
     and "parse_sns_message ex ev2 = Inr (PDict m2)"
     and "\<forall>k. k \<noteq> ''region'' \<longrightarrow> map_of m1 k = map_of m2 k"
  then show "instance_handler ex ev1 = instance_handler ex ev2"
    by (rule instance_handler_ignores_region)
next
  fix a r
  assume "parse_sns_message ex ev1 = Inr (PDict m1)"
     and "a \<in> set (snd (instance_handler ex ev1))"
     and "action_region a = Some r"
  then show "py_get (PDict m1) ''instanceRegion'' PNone = Inr r"
    by (rule instance_handler_regions)
qed

theorem region_fields_agree_and_executor_reads_instanceRegion_witness:
  "published (snd (interaction_handler
      (stub_intake (command_interaction (PStr ''us-east-1|i-0123456789abcdef0'')))
      signed_event))
     = [sns_message (PStr ''start'') (PStr ''42'') (PStr ''tok'')
          ''us-east-1'' ''i-0123456789abcdef0'']
   \<and> (\<exists>r. py_get (sns_message (PStr ''start'') (PStr ''42'') (PStr ''tok'')
                   ''us-east-1'' ''i-0123456789abcdef0'') ''region'' PNone = Inr (PStr r)
          \<and> py_get (sns_message (PStr ''start'') (PStr ''42'') (PStr ''tok'')
                   ''us-east-1'' ''i-0123456789abcdef0'') ''instanceRegion'' PNone
              = Inr (PStr r))
   \<and> parse_sns_message (stub_executor (Inr [[example_instance]]) two_messages) (sns_event ''b'')
       = Inr (channel_message (PStr ''start'') (PStr ''eu-west-9''))
   \<and> instance_handler (stub_executor (Inr [[example_instance]]) two_messages) (sns_event ''a'')
       = instance_handler (stub_executor (Inr [[example_instance]]) two_messages)
           (sns_event ''b'')
   \<and> instance_handler (stub_executor (Inr [[example_instance]]) two_messages) (sns_event ''b'')
       = (Inr (),
          [DescribeInstances (PStr ''us-east-1'') (PStr ''srv''),
           StartInstances (PStr ''us-east-1'') ''i-0123456789abcdef0'',
           PatchInteraction (PStr ''tok'') ''Starting...''])"
proof -
  let ?ex = "stub_executor (Inr [[example_instance]]) two_messages"
  let ?ma = "[(''interactionId'', PStr ''42''), (''interactionToken'', PStr ''tok''),
              (''command'', PStr ''start''), (''serverId'', PStr ''srv''),
              (''region'', PStr ''us-east-1''), (''instanceRegion'', PStr ''us-east-1'')]"
  let ?mb = "[(''interactionId'', PStr ''42''), (''interactionToken'', PStr ''tok''),
              (''command'', PStr ''start''), (''serverId'', PStr ''srv''),
              (''region'', PStr ''eu-west-9''), (''instanceRegion'', PStr ''us-east-1'')]"
  have a: "map_of two_messages ''a'' = Some (channel_message (PStr ''start'') (PStr ''us-east-1''))"
    and b: "map_of two_messages ''b'' = Some (channel_message (PStr ''start'') (PStr ''eu-west-9''))"
    by (simp_all add: two_messages_def)
  have pa: "parse_sns_message ?ex (sns_event ''a'') = Inr (PDict ?ma)"
    using stub_parses_payload [OF a] by (simp add: channel_message_def)
  have pb: "parse_sns_message ?ex (sns_event ''b'') = Inr (PDict ?mb)"
    using stub_parses_payload [OF b] by (simp add: channel_message_def)
  have same: "\<forall>k. k \<noteq> ''region'' \<longrightarrow> map_of ?ma k = map_of ?mb k"
    by simp
  note t = region_fields_agree_and_executor_reads_instanceRegion
    [of "stub_intake (command_interaction (PStr ''us-east-1|i-0123456789abcdef0''))"
        signed_event ?ex "sns_event ''a''" ?ma "sns_event ''b''" ?mb]
  from t have eq: "instance_handler ?ex (sns_event ''a'') = instance_handler ?ex (sns_event ''b'')"
    using pa pb same by blast
  from t have "\<exists>r. py_get (sns_message (PStr ''start'') (PStr ''42'') (PStr ''tok'')
                   ''us-east-1'' ''i-0123456789abcdef0'') ''region'' PNone = Inr (PStr r)
          \<and> py_get (sns_message (PStr ''start'') (PStr ''42'') (PStr ''tok'')
                   ''us-east-1'' ''i-0123456789abcdef0'') ''instanceRegion'' PNone
              = Inr (PStr r)"
    by (simp add: stub_publishes_example)
  with eq show ?thesis
    using stub_publishes_example stub_parses_payload [OF b, of "Inr [[example_instance]]"]
      stub_executor_starts [OF b]
    by simp
qed

end
